theory Spec2Isabelle
  imports Main
begin

section \<open>Values exchanged with the handlers\<close>

text \<open>
  The handlers of \<^verbatim>\<open>datadog_mcp/tools/get_monitor.py\<close> and
  \<^verbatim>\<open>datadog_mcp/tools/monitor_edit.py\<close> work on JSON-decoded Python data: the
  request arguments and the monitor record returned by the remote client. The code
  checks no types, so the model keeps the values dynamically typed. A Python \<open>str\<close>
  is a sequence of code points; the model takes them from \<^typ>\<open>char\<close>, one
  \<^typ>\<open>char\<close> per code point (code points below 256). A \<open>dict\<close> is an association
  list in insertion order, read with \<^const>\<open>map_of\<close>. Python \<open>float\<close> values are
  left out of the value type.
\<close>

datatype pyval =
    PNone
  | PBool bool
  | PInt int
  | PStr string
  | PList "pyval list"
  | PDict "(string \<times> pyval) list"

text \<open>\<open>type(v).__name__\<close>, as it appears in the interpreter's error messages.\<close>

fun type_name :: "pyval \<Rightarrow> string" where
  "type_name PNone = ''NoneType''"
| "type_name (PBool b) = ''bool''"
| "type_name (PInt i) = ''int''"
| "type_name (PStr s) = ''str''"
| "type_name (PList xs) = ''list''"
| "type_name (PDict kvs) = ''dict''"

definition sq :: "string \<Rightarrow> string" where
  "sq s = CHR 0x27 # s @ [CHR 0x27]"

subsection \<open>\<open>str\<close> and \<open>repr\<close>\<close>

function str_nat :: "nat \<Rightarrow> string" where
  "str_nat n =
     (if n < 10 then [''0123456789'' ! n]
      else str_nat (n div 10) @ [''0123456789'' ! (n mod 10)])"
  by pat_completeness auto
termination
  by (relation "measure id") auto

declare str_nat.simps [simp del]

definition str_int :: "int \<Rightarrow> string" where
  "str_int i = (if i < 0 then CHR ''-'' # str_nat (nat (- i)) else str_nat (nat i))"

text \<open>\<open>sep.join(xs)\<close> on a list of strings.\<close>

fun join :: "string \<Rightarrow> string list \<Rightarrow> string" where
  "join sep [] = []"
| "join sep [x] = x"
| "join sep (x # y # ys) = x @ sep @ join sep (y # ys)"

definition hex_digit :: "nat \<Rightarrow> char" where
  "hex_digit n = ''0123456789abcdef'' ! n"

text \<open>
  \<open>repr\<close> of a string: the quote is the apostrophe unless the string holds an
  apostrophe and no double quote; the quote and the backslash are escaped, tab, newline
  and carriage return have their short escapes, every other code point that is not
  printable is written \<open>\xNN\<close>.
\<close>

definition repr_char :: "char \<Rightarrow> char \<Rightarrow> string" where
  "repr_char q c =
     (let n = of_char c :: nat in
      if c = q \<or> c = CHR 0x5C then [CHR 0x5C, c]
      else if c = CHR 0x09 then [CHR 0x5C, CHR ''t'']
      else if c = CHR 0x0A then [CHR 0x5C, CHR ''n'']
      else if c = CHR 0x0D then [CHR 0x5C, CHR ''r'']
      else if n < 32 \<or> n = 127 \<or> (128 \<le> n \<and> n \<le> 160) \<or> n = 173
        then [CHR 0x5C, CHR ''x'', hex_digit (n div 16), hex_digit (n mod 16)]
      else [c])"

definition repr_str :: "string \<Rightarrow> string" where
  "repr_str s =
     (let q = (if CHR 0x27 \<in> set s \<and> CHR 0x22 \<notin> set s then CHR 0x22 else CHR 0x27)
      in q # concat (map (repr_char q) s) @ [q])"

primrec py_repr :: "pyval \<Rightarrow> string" where
  "py_repr PNone = ''None''"
| "py_repr (PBool b) = (if b then ''True'' else ''False'')"
| "py_repr (PInt i) = str_int i"
| "py_repr (PStr s) = repr_str s"
| "py_repr (PList xs) = ''['' @ join '', '' (map py_repr xs) @ '']''"
| "py_repr (PDict kvs) =
     ''{'' @ join '', '' (map (\<lambda>kv. repr_str (fst kv) @ '': '' @ snd kv)
                            (map (map_prod id py_repr) kvs)) @ ''}''"

text \<open>
  What an f-string field \<open>{v}\<close> inserts: \<open>format(v, "")\<close>, which is \<open>str(v)\<close> for
  these types.
\<close>

fun py_str :: "pyval \<Rightarrow> string" where
  "py_str (PStr s) = s"
| "py_str v = py_repr v"

subsection \<open>\<open>json.dumps(v, indent=2)\<close>\<close>

text \<open>
  With the default \<open>ensure_ascii\<close>, a string is written between double quotes; the
  double quote and the backslash are escaped, backspace, form feed, newline, carriage
  return and tab have their short escapes, and every other code point outside
  \<open>' '..'~'\<close> is written \<open>\uNNNN\<close>.
\<close>

definition json_escape_char :: "char \<Rightarrow> string" where
  "json_escape_char c =
     (let n = of_char c :: nat in
      if c = CHR 0x22 then [CHR 0x5C, CHR 0x22]
      else if c = CHR 0x5C then [CHR 0x5C, CHR 0x5C]
      else if c = CHR 0x0A then [CHR 0x5C, CHR ''n'']
      else if c = CHR 0x0D then [CHR 0x5C, CHR ''r'']
      else if c = CHR 0x09 then [CHR 0x5C, CHR ''t'']
      else if c = CHR 0x08 then [CHR 0x5C, CHR ''b'']
      else if c = CHR 0x0C then [CHR 0x5C, CHR ''f'']
      else if n < 32 \<or> 126 < n
        then [CHR 0x5C, CHR ''u'', CHR ''0'', CHR ''0'', hex_digit (n div 16), hex_digit (n mod 16)]
      else [c])"

definition json_str :: "string \<Rightarrow> string" where
  "json_str s = CHR 0x22 # concat (map json_escape_char s) @ [CHR 0x22]"

definition newline_indent :: "nat \<Rightarrow> string" where
  "newline_indent level = CHR 0x0A # replicate (2 * level) CHR '' ''"

primrec json_encode :: "pyval \<Rightarrow> nat \<Rightarrow> string" where
  "json_encode PNone level = ''null''"
| "json_encode (PBool b) level = (if b then ''true'' else ''false'')"
| "json_encode (PInt i) level = str_int i"
| "json_encode (PStr s) level = json_str s"
| "json_encode (PList xs) level =
     (if xs = [] then ''[]''
      else ''['' @ newline_indent (Suc level)
           @ join ('','' @ newline_indent (Suc level))
               (map (\<lambda>f. f (Suc level)) (map json_encode xs))
           @ newline_indent level @ '']'')"
| "json_encode (PDict kvs) level =
     (if kvs = [] then ''{}''
      else ''{'' @ newline_indent (Suc level)
           @ join ('','' @ newline_indent (Suc level))
               (map (\<lambda>kf. json_str (fst kf) @ '': '' @ snd kf (Suc level))
                  (map (map_prod id json_encode) kvs))
           @ newline_indent level @ ''}'')"

definition json_dumps :: "pyval \<Rightarrow> string" where
  "json_dumps v = json_encode v 0"

section \<open>Exceptions and the operations the handlers apply to values\<close>

text \<open>
  Both handlers run inside \<open>try\<close> with two clauses, \<open>except httpx.HTTPStatusError\<close>
  and \<open>except Exception\<close>. An exception is modelled by its class and \<open>str(e)\<close>; an
  \<open>HTTPStatusError\<close> also carries \<open>e.response.status_code\<close>. The messages of
  \<open>TypeError\<close> and \<open>AttributeError\<close> are those of CPython 3.11. \<open>OtherException\<close> is any
  other instance of \<open>Exception\<close>. \<open>BaseExceptionOnly\<close> is an exception whose class derives
  from \<open>BaseException\<close> and not from \<open>Exception\<close>: \<open>asyncio.CancelledError\<close>, raised in
  the awaited call of the remote client when the task is cancelled, \<open>KeyboardInterrupt\<close>,
  \<open>SystemExit\<close>. Neither \<open>except\<close> clause matches it.
\<close>

datatype exn =
    HTTPStatusError int string
  | TypeError string
  | AttributeError string
  | OtherException string
  | BaseExceptionOnly string

fun str_exn :: "exn \<Rightarrow> string" where
  "str_exn (HTTPStatusError status msg) = msg"
| "str_exn (TypeError msg) = msg"
| "str_exn (AttributeError msg) = msg"
| "str_exn (OtherException msg) = msg"
| "str_exn (BaseExceptionOnly msg) = msg"

text \<open>\<open>isinstance(e, Exception)\<close>.\<close>

fun is_exception :: "exn \<Rightarrow> bool" where
  "is_exception (BaseExceptionOnly msg) = False"
| "is_exception e = True"

text \<open>Sequencing of steps that may raise: the first exception ends the computation.\<close>

fun and_then :: "exn + 'a \<Rightarrow> ('a \<Rightarrow> exn + 'b) \<Rightarrow> exn + 'b" where
  "and_then (Inl e) f = Inl e"
| "and_then (Inr x) f = f x"

text \<open>\<open>d.get(k, default)\<close> on a dict.\<close>

definition dict_get :: "(string \<times> pyval) list \<Rightarrow> string \<Rightarrow> pyval \<Rightarrow> pyval" where
  "dict_get d k dflt = (case map_of d k of None \<Rightarrow> dflt | Some v \<Rightarrow> v)"

text \<open>\<open>v.get(k, default)\<close> on any value: only a dict has the method.\<close>

fun py_get :: "pyval \<Rightarrow> string \<Rightarrow> pyval \<Rightarrow> exn + pyval" where
  "py_get (PDict d) k dflt = Inr (dict_get d k dflt)"
| "py_get v k dflt =
     Inl (AttributeError (sq (type_name v) @ '' object has no attribute '' @ sq ''get''))"

text \<open>\<open>v[:n]\<close>.\<close>

fun py_slice_to :: "nat \<Rightarrow> pyval \<Rightarrow> exn + pyval" where
  "py_slice_to n (PList xs) = Inr (PList (take n xs))"
| "py_slice_to n (PStr s) = Inr (PStr (take n s))"
| "py_slice_to n (PDict d) = Inl (TypeError (''unhashable type: '' @ sq ''slice''))"
| "py_slice_to n v = Inl (TypeError (sq (type_name v) @ '' object is not subscriptable''))"

text \<open>\<open>len(v)\<close>.\<close>

fun py_len :: "pyval \<Rightarrow> exn + nat" where
  "py_len (PList xs) = Inr (length xs)"
| "py_len (PStr s) = Inr (length s)"
| "py_len (PDict d) = Inr (length d)"
| "py_len v = Inl (TypeError (''object of type '' @ sq (type_name v) @ '' has no len()''))"

text \<open>\<open>sep.join(v)\<close>: every item of the iterable must be a string.\<close>

fun join_items :: "nat \<Rightarrow> pyval list \<Rightarrow> exn + string list" where
  "join_items i [] = Inr []"
| "join_items i (PStr s # xs) = and_then (join_items (Suc i) xs) (\<lambda>ss. Inr (s # ss))"
| "join_items i (v # xs) =
     Inl (TypeError (''sequence item '' @ str_nat i @ '': expected str instance, ''
                     @ type_name v @ '' found''))"

fun py_join :: "string \<Rightarrow> pyval \<Rightarrow> exn + string" where
  "py_join sep (PList xs) = and_then (join_items 0 xs) (\<lambda>ss. Inr (join sep ss))"
| "py_join sep (PStr s) = Inr (join sep (map (\<lambda>c. [c]) s))"
| "py_join sep (PDict d) = Inr (join sep (map fst d))"
| "py_join sep v = Inl (TypeError ''can only join an iterable'')"

text \<open>\<open>v + "..."\<close> with a string on the right.\<close>

fun py_add_str :: "pyval \<Rightarrow> string \<Rightarrow> exn + pyval" where
  "py_add_str (PStr s) t = Inr (PStr (s @ t))"
| "py_add_str (PList xs) t =
     Inl (TypeError (''can only concatenate list (not '' @ [CHR 0x22] @ ''str'' @ [CHR 0x22]
                     @ '') to list''))"
| "py_add_str v t =
     Inl (TypeError (''unsupported operand type(s) for +: '' @ sq (type_name v) @ '' and ''
                     @ sq ''str''))"

text \<open>\<open>v.replace("\n", " ")\<close>: a method of strings only.\<close>

fun py_replace_newlines :: "pyval \<Rightarrow> exn + string" where
  "py_replace_newlines (PStr s) = Inr (map (\<lambda>c. if c = CHR 0x0A then CHR '' '' else c) s)"
| "py_replace_newlines v =
     Inl (AttributeError (sq (type_name v) @ '' object has no attribute '' @ sq ''replace''))"

text \<open>
  \<open>v < n\<close> and \<open>v > n\<close> against an integer literal: defined on \<open>int\<close> and on
  \<open>bool\<close> (a subclass of \<open>int\<close>: \<open>False\<close> is 0, \<open>True\<close> is 1), a
  \<open>TypeError\<close> on the other types.
\<close>

fun py_lt_int :: "pyval \<Rightarrow> int \<Rightarrow> exn + bool" where
  "py_lt_int (PInt i) n = Inr (i < n)"
| "py_lt_int (PBool b) n = Inr ((if b then 1 else 0) < n)"
| "py_lt_int v n =
     Inl (TypeError (sq ''<'' @ '' not supported between instances of '' @ sq (type_name v)
                     @ '' and '' @ sq ''int''))"

fun py_gt_int :: "pyval \<Rightarrow> int \<Rightarrow> exn + bool" where
  "py_gt_int (PInt i) n = Inr (i > n)"
| "py_gt_int (PBool b) n = Inr ((if b then 1 else 0) > n)"
| "py_gt_int v n =
     Inl (TypeError (sq ''>'' @ '' not supported between instances of '' @ sq (type_name v)
                     @ '' and '' @ sq ''int''))"

section \<open>The remote client and the tool protocol\<close>

text \<open>
  \<open>fetch_monitor\<close> and \<open>update_monitor\<close> live in \<open>utils/datadog_client.py\<close> and are
  parameters of the model: a \<open>remote\<close> says, for each call, what the client returns or
  raises. A handler returns its result together with the list of the calls it made to
  the remote client, in order.
\<close>

datatype call =
    FetchMonitor pyval
  | UpdateMonitor pyval "(string \<times> pyval) list"

datatype outcome = Returns pyval | Raises exn

type_synonym remote = "call \<Rightarrow> outcome"

record CallToolRequest =
  arguments :: "(string \<times> pyval) list option"

text \<open>
  \<open>CallToolResult(content=[TextContent(type="text", text=t)], isError=b)\<close>: one text
  block and the error flag.
\<close>

record CallToolResult =
  content_text :: string
  isError :: bool

text \<open>\<open>request.arguments or {}\<close>.\<close>

definition arguments_or_empty :: "CallToolRequest \<Rightarrow> (string \<times> pyval) list" where
  "arguments_or_empty request = (case arguments request of None \<Rightarrow> [] | Some a \<Rightarrow> a)"

section \<open>\<open>get_monitor.handle_call\<close>\<close>

text \<open>Lines 67 to 70: the tags shown in the table.\<close>

definition tags_summary :: "pyval \<Rightarrow> exn + string" where
  "tags_summary tags =
     and_then (py_slice_to 5 tags) (\<lambda>first.
     and_then (py_join '', '' first) (\<lambda>tags_str.
     and_then (py_len tags) (\<lambda>n.
     Inr (if n > 5 then tags_str @ '' (+'' @ str_int (int n - 5) @ '' more)''
          else tags_str))))"

text \<open>Lines 72 and 73: the message shown in the table.\<close>

definition message_truncated :: "pyval \<Rightarrow> exn + string" where
  "message_truncated message =
     and_then (py_len message) (\<lambda>n.
     and_then (if n > 100
               then and_then (py_slice_to 100 message) (\<lambda>head. py_add_str head ''...'')
               else Inr message) (\<lambda>truncated.
     py_replace_newlines truncated))"

text \<open>Lines 60 to 84: the table.\<close>

definition render_table :: "pyval \<Rightarrow> pyval \<Rightarrow> exn + string" where
  "render_table monitor_id monitor =
     and_then (py_get monitor ''name'' (PStr ''Unnamed'')) (\<lambda>monitor_name.
     and_then (py_get monitor ''type'' (PStr ''unknown'')) (\<lambda>monitor_type.
     and_then (py_get monitor ''overall_state'' (PStr ''unknown'')) (\<lambda>overall_state.
     and_then (py_get monitor ''priority'' (PStr ''N/A'')) (\<lambda>priority.
     and_then (py_get monitor ''query'' (PStr ''N/A'')) (\<lambda>query.
     and_then (py_get monitor ''message'' (PStr [])) (\<lambda>message.
     and_then (py_get monitor ''tags'' (PList [])) (\<lambda>tags.
     and_then (tags_summary tags) (\<lambda>tags_str.
     and_then (message_truncated message) (\<lambda>message_str.
     Inr (''Monitor Details\<newline>''
          @ replicate 15 CHR ''='' @ ''\<newline>\<newline>''
          @ ''ID:       '' @ py_str monitor_id @ ''\<newline>''
          @ ''Name:     '' @ py_str monitor_name @ ''\<newline>''
          @ ''Type:     '' @ py_str monitor_type @ ''\<newline>''
          @ ''State:    '' @ py_str overall_state @ ''\<newline>''
          @ ''Priority: '' @ py_str priority @ ''\<newline>''
          @ ''Tags:     '' @ (if tags_str \<noteq> [] then tags_str else ''None'') @ ''\<newline>''
          @ ''Query:    '' @ py_str query @ ''\<newline>''
          @ ''Message:  '' @ (if message_str \<noteq> [] then message_str else ''None'')
          @ ''\<newline>''))))))))))"

text \<open>The body of the \<open>try\<close> block: what it returns or raises, and the calls made.\<close>

definition get_monitor_try :: "remote \<Rightarrow> CallToolRequest \<Rightarrow> (exn + CallToolResult) \<times> call list" where
  "get_monitor_try remote request =
     (let args = arguments_or_empty request;
          monitor_id = dict_get args ''monitor_id'' PNone;
          format_type = dict_get args ''format'' (PStr ''table'')
      in if monitor_id = PNone
         then (Inr \<lparr>content_text = ''Error: monitor_id is required'', isError = True\<rparr>, [])
         else (case remote (FetchMonitor monitor_id) of
                 Raises e \<Rightarrow> Inl e
               | Returns monitor \<Rightarrow>
                   and_then (if format_type = PStr ''json'' then Inr (json_dumps monitor)
                             else render_table monitor_id monitor) (\<lambda>content.
                   Inr \<lparr>content_text = content, isError = False\<rparr>),
               [FetchMonitor monitor_id]))"

text \<open>
  The two \<open>except\<close> clauses (the calls to the logger are left out). An exception that
  neither clause matches leaves \<open>handle_call\<close>: the handler then gives \<open>Inl\<close> of it, and
  \<open>Inr\<close> of the result when it returns one.
\<close>

fun get_monitor_except :: "exn \<Rightarrow> exn + CallToolResult" where
  "get_monitor_except (HTTPStatusError status msg) =
     (if status = 404 then Inr \<lparr>content_text = ''Monitor not found'', isError = True\<rparr>
      else if status = 403 then Inr \<lparr>content_text = ''Permission denied'', isError = True\<rparr>
      else Inr \<lparr>content_text = ''Error: '' @ msg, isError = True\<rparr>)"
| "get_monitor_except (BaseExceptionOnly msg) = Inl (BaseExceptionOnly msg)"
| "get_monitor_except e = Inr \<lparr>content_text = ''Error: '' @ str_exn e, isError = True\<rparr>"

definition get_monitor_handle_call ::
  "remote \<Rightarrow> CallToolRequest \<Rightarrow> (exn + CallToolResult) \<times> call list" where
  "get_monitor_handle_call remote request =
     (case get_monitor_try remote request of
        (Inl e, calls) \<Rightarrow> (get_monitor_except e, calls)
      | (Inr result, calls) \<Rightarrow> (Inr result, calls))"

section \<open>\<open>monitor_edit.handle_call\<close>\<close>

text \<open>Line 71: \<open>priority is not None and (priority < 1 or priority > 5)\<close>.\<close>

definition priority_invalid :: "pyval \<Rightarrow> exn + bool" where
  "priority_invalid priority =
     (if priority \<noteq> PNone
      then and_then (py_lt_int priority 1) (\<lambda>below.
           if below then Inr True else py_gt_int priority 5)
      else Inr False)"

text \<open>Lines 77 to 85: the keyword arguments passed to \<open>update_monitor\<close>.\<close>

definition build_updates :: "pyval \<Rightarrow> pyval \<Rightarrow> pyval \<Rightarrow> pyval \<Rightarrow> (string \<times> pyval) list" where
  "build_updates name message tags priority =
     (if name \<noteq> PNone then [(''name'', name)] else [])
     @ (if message \<noteq> PNone then [(''message'', message)] else [])
     @ (if tags \<noteq> PNone then [(''tags'', tags)] else [])
     @ (if priority \<noteq> PNone then [(''priority'', priority)] else [])"

definition monitor_edit_try :: "remote \<Rightarrow> CallToolRequest \<Rightarrow> (exn + CallToolResult) \<times> call list" where
  "monitor_edit_try remote request =
     (let args = arguments_or_empty request;
          monitor_id = dict_get args ''monitor_id'' PNone
      in if monitor_id = PNone
         then (Inr \<lparr>content_text = ''Error: monitor_id is required'', isError = True\<rparr>, [])
         else
           (let name = dict_get args ''name'' PNone;
                message = dict_get args ''message'' PNone;
                tags = dict_get args ''tags'' PNone;
                priority = dict_get args ''priority'' PNone
            in case priority_invalid priority of
                 Inl e \<Rightarrow> (Inl e, [])
               | Inr True \<Rightarrow>
                   (Inr \<lparr>content_text = ''Invalid priority: must be 1-5'', isError = True\<rparr>, [])
               | Inr False \<Rightarrow>
                   (let updates = build_updates name message tags priority
                    in if updates = []
                       then (Inr \<lparr>content_text = ''At least one field to update is required'',
                                  isError = True\<rparr>, [])
                       else (case remote (UpdateMonitor monitor_id updates) of
                               Raises e \<Rightarrow> Inl e
                             | Returns updated \<Rightarrow>
                                 Inr \<lparr>content_text = ''Monitor '' @ py_str monitor_id
                                        @ '' updated successfully'', isError = False\<rparr>,
                             [UpdateMonitor monitor_id updates]))))"

fun monitor_edit_except :: "exn \<Rightarrow> exn + CallToolResult" where
  "monitor_edit_except (HTTPStatusError status msg) =
     (if status = 404 then Inr \<lparr>content_text = ''Monitor not found'', isError = True\<rparr>
      else if status = 403 then Inr \<lparr>content_text = ''Permission denied'', isError = True\<rparr>
      else Inr \<lparr>content_text = ''Error: '' @ msg, isError = True\<rparr>)"
| "monitor_edit_except (BaseExceptionOnly msg) = Inl (BaseExceptionOnly msg)"
| "monitor_edit_except e = Inr \<lparr>content_text = ''Error: '' @ str_exn e, isError = True\<rparr>"

definition monitor_edit_handle_call ::
  "remote \<Rightarrow> CallToolRequest \<Rightarrow> (exn + CallToolResult) \<times> call list" where
  "monitor_edit_handle_call remote request =
     (case monitor_edit_try remote request of
        (Inl e, calls) \<Rightarrow> (monitor_edit_except e, calls)
      | (Inr result, calls) \<Rightarrow> (Inr result, calls))"

section \<open>The specification's wording, for comparison with the code\<close>

definition spec_table :: "string \<Rightarrow> string \<Rightarrow> string \<Rightarrow> string \<Rightarrow> string \<Rightarrow> string \<Rightarrow> string \<Rightarrow> string \<Rightarrow> string" where
  "spec_table ident name type state priority tags query message =
     ''Monitor Details\<newline>===============\<newline>\<newline>''
     @ ''ID:       '' @ ident @ ''\<newline>''
     @ ''Name:     '' @ name @ ''\<newline>''
     @ ''Type:     '' @ type @ ''\<newline>''
     @ ''State:    '' @ state @ ''\<newline>''
     @ ''Priority: '' @ priority @ ''\<newline>''
     @ ''Tags:     '' @ tags @ ''\<newline>''
     @ ''Query:    '' @ query @ ''\<newline>''
     @ ''Message:  '' @ message @ ''\<newline>''"

definition spec_attribute :: "(string \<times> pyval) list \<Rightarrow> string \<Rightarrow> string \<Rightarrow> string" where
  "spec_attribute attrs k dflt = (case map_of attrs k of None \<Rightarrow> dflt | Some v \<Rightarrow> py_str v)"

definition spec_tags :: "string list \<Rightarrow> nat \<Rightarrow> string" where
  "spec_tags first count =
     join '', '' first @ (if count > 5 then '' (+'' @ str_nat (count - 5) @ '' more)'' else [])"

definition spec_or_none :: "string \<Rightarrow> string" where
  "spec_or_none s = (if s = [] then ''None'' else s)"

definition spec_error_result :: "exn \<Rightarrow> CallToolResult" where
  "spec_error_result e =
     \<lparr>content_text =
        (case e of
           HTTPStatusError status msg \<Rightarrow>
             if status = 404 then ''Monitor not found''
             else if status = 403 then ''Permission denied''
             else ''Error: '' @ msg
         | TypeError msg \<Rightarrow> ''Error: '' @ msg
         | AttributeError msg \<Rightarrow> ''Error: '' @ msg
         | OtherException msg \<Rightarrow> ''Error: '' @ msg
         | BaseExceptionOnly msg \<Rightarrow> ''Error: '' @ msg),
      isError = True\<rparr>"

definition spec_message :: "string \<Rightarrow> string" where
  "spec_message message =
     (let collapsed = map (\<lambda>c. if c = CHR 0x0A then CHR '' '' else c) message
      in spec_or_none (if length collapsed > 100 then take 100 collapsed @ ''...'' else collapsed))"

section \<open>Sample remote clients\<close>

definition sample_remote :: remote where
  "sample_remote c = Returns (PDict [(''id'', PInt 12345)])"

definition not_found_remote :: remote where
  "not_found_remote c = Raises (HTTPStatusError 404 ''Not Found'')"

definition forbidden_remote :: remote where
  "forbidden_remote c = Raises (HTTPStatusError 403 ''Forbidden'')"

definition server_error_remote :: remote where
  "server_error_remote c = Raises (HTTPStatusError 500 ''Internal Server Error'')"

definition api_error_remote :: remote where
  "api_error_remote c = Raises (OtherException ''API error'')"

text \<open>The task is cancelled while the call is awaited: \<open>asyncio.CancelledError()\<close>.\<close>

definition cancelled_remote :: remote where
  "cancelled_remote c = Raises (BaseExceptionOnly [])"

definition seven_tags_remote :: remote where
  "seven_tags_remote c =
     Returns (PDict [(''id'', PInt 12345), (''name'', PStr ''Test Monitor''),
                     (''priority'', PNone),
                     (''message'', PStr (replicate 200 CHR ''A'')),
                     (''tags'', PList [PStr ''t1'', PStr ''t2'', PStr ''t3'', PStr ''t4'',
                                      PStr ''t5'', PStr ''t6'', PStr ''t7''])])"

definition newline_message_remote :: remote where
  "newline_message_remote c =
     Returns (PDict [(''name'', PStr ''Memory Usage Alert''),
                     (''message'', PStr ''Memory usage critical!\<newline>@slack-alerts''),
                     (''tags'', PList [])])"

section \<open>Auxiliary facts\<close>

lemma replicate_15: "replicate 15 c = [c, c, c, c, c, c, c, c, c, c, c, c, c, c, c]"
  by (simp add: numeral_eq_Suc)

lemma and_then_Inr_iff: "and_then m f = Inr y \<longleftrightarrow> (\<exists>x. m = Inr x \<and> f x = Inr y)"
  by (cases m) auto

lemma py_get_Inr: "py_get v k d = Inr x \<Longrightarrow> \<exists>attrs. v = PDict attrs \<and> x = dict_get attrs k d"
  by (cases v) auto

lemma spec_attribute_get: "py_str (dict_get attrs k (PStr d)) = spec_attribute attrs k d"
  by (simp add: dict_get_def spec_attribute_def split: option.splits)

lemma render_table_success:
  assumes "render_table mid monitor = Inr out"
  shows "\<exists>attrs tags_str message_str.
           monitor = PDict attrs
         \<and> tags_summary (dict_get attrs ''tags'' (PList [])) = Inr tags_str
         \<and> message_truncated (dict_get attrs ''message'' (PStr [])) = Inr message_str
         \<and> out = spec_table (py_str mid)
                   (spec_attribute attrs ''name'' ''Unnamed'')
                   (spec_attribute attrs ''type'' ''unknown'')
                   (spec_attribute attrs ''overall_state'' ''unknown'')
                   (spec_attribute attrs ''priority'' ''N/A'')
                   (spec_or_none tags_str)
                   (spec_attribute attrs ''query'' ''N/A'')
                   (spec_or_none message_str)"
proof -
  obtain attrs where m: "monitor = PDict attrs"
    using assms by (cases monitor) (simp_all add: render_table_def)
  obtain tags_str where t: "tags_summary (dict_get attrs ''tags'' (PList [])) = Inr tags_str"
    using assms unfolding m render_table_def
    by (cases "tags_summary (dict_get attrs ''tags'' (PList []))") simp_all
  obtain message_str where ms:
    "message_truncated (dict_get attrs ''message'' (PStr [])) = Inr message_str"
    using assms unfolding m render_table_def
    by (cases "message_truncated (dict_get attrs ''message'' (PStr []))") (simp_all add: t)
  have "out = spec_table (py_str mid)
                   (spec_attribute attrs ''name'' ''Unnamed'')
                   (spec_attribute attrs ''type'' ''unknown'')
                   (spec_attribute attrs ''overall_state'' ''unknown'')
                   (spec_attribute attrs ''priority'' ''N/A'')
                   (spec_or_none tags_str)
                   (spec_attribute attrs ''query'' ''N/A'')
                   (spec_or_none message_str)"
    using assms unfolding m render_table_def
    by (auto simp add: t ms spec_table_def spec_attribute_get spec_or_none_def replicate_15)
  with m t ms show ?thesis by blast
qed

lemma get_monitor_except_Inr: "get_monitor_except e = Inr result \<Longrightarrow> isError result"
  by (cases e) (auto split: if_splits)

lemma get_monitor_success:
  assumes "get_monitor_handle_call remote request = (Inr result, calls)" and "\<not> isError result"
  shows "\<exists>monitor. dict_get (arguments_or_empty request) ''monitor_id'' PNone \<noteq> PNone
         \<and> calls = [FetchMonitor (dict_get (arguments_or_empty request) ''monitor_id'' PNone)]
         \<and> remote (FetchMonitor (dict_get (arguments_or_empty request) ''monitor_id'' PNone)) = Returns monitor
         \<and> (if dict_get (arguments_or_empty request) ''format'' (PStr ''table'') = PStr ''json''
            then content_text result = json_dumps monitor
            else render_table (dict_get (arguments_or_empty request) ''monitor_id'' PNone) monitor
                 = Inr (content_text result))"
  using assms
  unfolding get_monitor_handle_call_def get_monitor_try_def Let_def
  by (auto split: if_splits outcome.splits sum.splits simp: and_then_Inr_iff
        dest: get_monitor_except_Inr)

lemma monitor_edit_except_Inr: "monitor_edit_except e = Inr result \<Longrightarrow> isError result"
  by (cases e) (auto split: if_splits)

lemma get_monitor_calls:
  "get_monitor_handle_call remote request = (result, calls) \<Longrightarrow> c \<in> set calls \<Longrightarrow>
   c = FetchMonitor (dict_get (arguments_or_empty request) ''monitor_id'' PNone)
   \<and> dict_get (arguments_or_empty request) ''monitor_id'' PNone \<noteq> PNone"
  unfolding get_monitor_handle_call_def get_monitor_try_def Let_def
  by (auto split: if_splits outcome.splits sum.splits prod.splits)

lemma get_monitor_raises:
  assumes "dict_get (arguments_or_empty request) ''monitor_id'' PNone = mid" and "mid \<noteq> PNone"
    and "remote (FetchMonitor mid) = Raises e"
  shows "get_monitor_handle_call remote request = (get_monitor_except e, [FetchMonitor mid])"
  using assms
  unfolding get_monitor_handle_call_def get_monitor_try_def Let_def
  by simp

text \<open>What \<open>monitor_edit\<close> does once \<open>monitor_id\<close> is there, case by case.\<close>

lemma monitor_edit_cases:
  assumes "dict_get (arguments_or_empty request) ''monitor_id'' PNone = mid" and "mid \<noteq> PNone"
  shows "monitor_edit_handle_call remote request =
    (let args = arguments_or_empty request;
         priority = dict_get args ''priority'' PNone;
         updates = build_updates (dict_get args ''name'' PNone) (dict_get args ''message'' PNone)
                     (dict_get args ''tags'' PNone) priority
     in case priority_invalid priority of
          Inl e \<Rightarrow> (monitor_edit_except e, [])
        | Inr True \<Rightarrow>
            (Inr \<lparr>content_text = ''Invalid priority: must be 1-5'', isError = True\<rparr>, [])
        | Inr False \<Rightarrow>
            if updates = []
            then (Inr \<lparr>content_text = ''At least one field to update is required'',
                       isError = True\<rparr>, [])
            else (case remote (UpdateMonitor mid updates) of
                    Raises e \<Rightarrow> monitor_edit_except e
                  | Returns updated \<Rightarrow>
                      Inr \<lparr>content_text = ''Monitor '' @ py_str mid @ '' updated successfully'',
                           isError = False\<rparr>,
                  [UpdateMonitor mid updates]))"
  using assms
  unfolding monitor_edit_handle_call_def monitor_edit_try_def Let_def
  by (auto split: sum.splits bool.splits outcome.splits)

lemma monitor_edit_calls:
  assumes "monitor_edit_handle_call remote request = (result, calls)" and "c \<in> set calls"
  shows "dict_get (arguments_or_empty request) ''monitor_id'' PNone \<noteq> PNone
       \<and> (\<exists>updates. c = UpdateMonitor (dict_get (arguments_or_empty request) ''monitor_id'' PNone) updates
            \<and> calls = [c]
            \<and> result = (case remote c of
                  Raises e \<Rightarrow> monitor_edit_except e
                | Returns updated \<Rightarrow>
                    Inr \<lparr>content_text = ''Monitor ''
                       @ py_str (dict_get (arguments_or_empty request) ''monitor_id'' PNone)
                       @ '' updated successfully'', isError = False\<rparr>))"
  using assms
  unfolding monitor_edit_handle_call_def monitor_edit_try_def Let_def
  by (auto split: if_splits sum.splits bool.splits outcome.splits)

lemma except_clauses_spec:
  "is_exception e \<Longrightarrow> get_monitor_except e = Inr (spec_error_result e)"
  "is_exception e \<Longrightarrow> monitor_edit_except e = Inr (spec_error_result e)"
  by (cases e; simp add: spec_error_result_def)+

lemma except_clauses_Inl:
  "get_monitor_except e = Inl x \<longleftrightarrow> \<not> is_exception e \<and> x = e"
  "monitor_edit_except e = Inl x \<longleftrightarrow> \<not> is_exception e \<and> x = e"
  by (cases e; auto)+

lemma monitor_edit_raises:
  assumes "c \<in> set (snd (monitor_edit_handle_call remote request))" and "remote c = Raises e"
  shows "fst (monitor_edit_handle_call remote request) = monitor_edit_except e"
  using monitor_edit_calls [of remote request "fst (monitor_edit_handle_call remote request)"
      "snd (monitor_edit_handle_call remote request)" c] assms
  by auto

lemma get_monitor_raises':
  assumes "c \<in> set (snd (get_monitor_handle_call remote request))" and "remote c = Raises e"
  shows "fst (get_monitor_handle_call remote request) = get_monitor_except e"
  using get_monitor_calls [of remote request "fst (get_monitor_handle_call remote request)"
      "snd (get_monitor_handle_call remote request)" c]
    get_monitor_raises [of request _ remote e] assms
  by auto

lemma map_of_build_updates:
  "map_of (build_updates n m t p) k =
     (if k = ''name'' \<and> n \<noteq> PNone then Some n
      else if k = ''message'' \<and> m \<noteq> PNone then Some m
      else if k = ''tags'' \<and> t \<noteq> PNone then Some t
      else if k = ''priority'' \<and> p \<noteq> PNone then Some p
      else None)"
  by (simp add: build_updates_def)

lemma distinct_build_updates: "distinct (map fst (build_updates n m t p))"
  by (simp add: build_updates_def)

lemma build_updates_empty:
  "build_updates n m t p = [] \<longleftrightarrow> n = PNone \<and> m = PNone \<and> t = PNone \<and> p = PNone"
  by (simp add: build_updates_def)

lemma priority_invalid_simps:
  "priority_invalid PNone = Inr False"
  "priority_invalid (PInt p) = Inr (p < 1 \<or> 5 < p)"
  by (auto simp add: priority_invalid_def)

lemma map_of_filter_key:
  "map_of (filter (\<lambda>kv. fst kv \<noteq> k) a) k' = (if k' = k then None else map_of a k')"
  by (induction a) auto

lemma dict_get_filter_key:
  "dict_get (filter (\<lambda>kv. fst kv \<noteq> k) a) k' d = (if k' = k then d else dict_get a k' d)"
  by (simp add: dict_get_def map_of_filter_key)

lemma dict_get_Cons:
  "dict_get ((k, v) # a) k' d = (if k' = k then v else dict_get a k' d)"
  by (simp add: dict_get_def)

lemma map_of_build_updates_iff:
  "map_of (build_updates n m t p) k = Some v \<longleftrightarrow>
     (k = ''name'' \<and> v = n \<and> n \<noteq> PNone)
   \<or> (k = ''message'' \<and> v = m \<and> m \<noteq> PNone)
   \<or> (k = ''tags'' \<and> v = t \<and> t \<noteq> PNone)
   \<or> (k = ''priority'' \<and> v = p \<and> p \<noteq> PNone)"
  by (auto simp: map_of_build_updates)

lemma dict_get_eq_iff:
  "(v = dict_get a k PNone \<and> dict_get a k PNone \<noteq> PNone) \<longleftrightarrow> (map_of a k = Some v \<and> v \<noteq> PNone)"
  by (auto simp: dict_get_def split: option.splits)

lemma join_items_Inr: "join_items i ys = Inr ss \<Longrightarrow> ys = map PStr ss"
  by (induction i ys arbitrary: ss rule: join_items.induct) (auto simp: and_then_Inr_iff)

lemma str_int_nat: "5 < n \<Longrightarrow> str_int (int n - 5) = str_nat (n - 5)"
  by (simp add: str_int_def nat_diff_distrib')

lemma tags_summary_list:
  assumes "tags_summary (PList xs) = Inr s"
  shows "\<exists>first. take 5 xs = map PStr first \<and> s = spec_tags first (length xs)"
proof -
  from assms obtain first where f: "join_items 0 (take 5 xs) = Inr first"
    and s: "s = (if length xs > 5 then join '', '' first @ '' (+'' @ str_int (int (length xs) - 5) @ '' more)''
                 else join '', '' first)"
    by (auto simp: tags_summary_def and_then_Inr_iff)
  from f have "take 5 xs = map PStr first" by (rule join_items_Inr)
  moreover from s have "s = spec_tags first (length xs)"
    by (simp add: spec_tags_def str_int_nat)
  ultimately show ?thesis by blast
qed

lemma tags_summary_absent: "tags_summary (PList []) = Inr []"
  by (simp add: tags_summary_def)

lemma message_truncated_str:
  "message_truncated (PStr m) =
     Inr (map (\<lambda>c. if c = CHR 0x0A then CHR '' '' else c)
            (if length m > 100 then take 100 m @ ''...'' else m))"
  by (simp add: message_truncated_def)

lemma spec_message_code:
  "spec_or_none (map (\<lambda>c. if c = CHR 0x0A then CHR '' '' else c)
            (if length m > 100 then take 100 m @ ''...'' else m)) = spec_message m"
  by (simp add: spec_message_def Let_def take_map)

lemma get_monitor_table:
  assumes "get_monitor_handle_call remote request = (Inr result, calls)"
    and "\<not> isError result"
    and "dict_get (arguments_or_empty request) ''format'' (PStr ''table'') \<noteq> PStr ''json''"
  shows "\<exists>attrs tags_str message_str.
           remote (FetchMonitor (dict_get (arguments_or_empty request) ''monitor_id'' PNone))
             = Returns (PDict attrs)
         \<and> tags_summary (dict_get attrs ''tags'' (PList [])) = Inr tags_str
         \<and> message_truncated (dict_get attrs ''message'' (PStr [])) = Inr message_str
         \<and> content_text result =
             spec_table (py_str (dict_get (arguments_or_empty request) ''monitor_id'' PNone))
               (spec_attribute attrs ''name'' ''Unnamed'')
               (spec_attribute attrs ''type'' ''unknown'')
               (spec_attribute attrs ''overall_state'' ''unknown'')
               (spec_attribute attrs ''priority'' ''N/A'')
               (spec_or_none tags_str)
               (spec_attribute attrs ''query'' ''N/A'')
               (spec_or_none message_str)"
proof -
  from get_monitor_success [OF assms(1,2)] assms(3) obtain monitor where
    r: "remote (FetchMonitor (dict_get (arguments_or_empty request) ''monitor_id'' PNone))
          = Returns monitor"
    and t: "render_table (dict_get (arguments_or_empty request) ''monitor_id'' PNone) monitor
          = Inr (content_text result)"
    by auto
  from render_table_success [OF t] r show ?thesis by blast
qed

lemmas run_get_monitor =
  get_monitor_handle_call_def get_monitor_try_def arguments_or_empty_def dict_get_def
  render_table_def tags_summary_def message_truncated_def str_int_def str_nat.simps
  spec_table_def replicate_15 Let_def

section \<open>The claims\<close>

text \<open>
  Claim C1, as amended. When the call to the remote client raises an exception that is an
  instance of \<open>Exception\<close>, each handler returns the result the error mapping prescribes:
  ``Monitor not found'' for an HTTP status error with status 404, ``Permission denied'' for
  status 403, and ``Error: '' followed by \<open>str(e)\<close> for every other status and every other
  such exception; the same holds for every such exception raised anywhere inside the
  \<open>try\<close> block, and every such result has the error flag set. No instance of
  \<open>Exception\<close> leaves either handler: whenever an exception does leave one, it is not an
  instance of \<open>Exception\<close>. An exception outside \<open>Exception\<close> raised by the call to the
  remote client is not caught: it leaves the handler, which returns no result.
\<close>

theorem exception_failure_reported:
  "(is_exception e \<and> c \<in> set (snd (get_monitor_handle_call remote request))
        \<and> remote c = Raises e
      \<longrightarrow> fst (get_monitor_handle_call remote request) = Inr (spec_error_result e))
   \<and> (is_exception e \<and> c \<in> set (snd (monitor_edit_handle_call remote request))
        \<and> remote c = Raises e
      \<longrightarrow> fst (monitor_edit_handle_call remote request) = Inr (spec_error_result e))
   \<and> (is_exception e \<and> fst (get_monitor_try remote request) = Inl e
      \<longrightarrow> fst (get_monitor_handle_call remote request) = Inr (spec_error_result e))
   \<and> (is_exception e \<and> fst (monitor_edit_try remote request) = Inl e
      \<longrightarrow> fst (monitor_edit_handle_call remote request) = Inr (spec_error_result e))
   \<and> isError (spec_error_result e)
   \<and> (fst (get_monitor_handle_call remote request) = Inl x \<longrightarrow> \<not> is_exception x)
   \<and> (fst (monitor_edit_handle_call remote request) = Inl x \<longrightarrow> \<not> is_exception x)
   \<and> (\<not> is_exception e \<and> c \<in> set (snd (get_monitor_handle_call remote request))
        \<and> remote c = Raises e
      \<longrightarrow> fst (get_monitor_handle_call remote request) = Inl e)
   \<and> (\<not> is_exception e \<and> c \<in> set (snd (monitor_edit_handle_call remote request))
        \<and> remote c = Raises e
      \<longrightarrow> fst (monitor_edit_handle_call remote request) = Inl e)"
proof -
  have try_get: "fst (get_monitor_handle_call remote request) = get_monitor_except e'"
    if "fst (get_monitor_try remote request) = Inl e'" for e'
    using that by (cases "get_monitor_try remote request") (simp add: get_monitor_handle_call_def)
  have try_edit: "fst (monitor_edit_handle_call remote request) = monitor_edit_except e'"
    if "fst (monitor_edit_try remote request) = Inl e'" for e'
    using that by (cases "monitor_edit_try remote request") (simp add: monitor_edit_handle_call_def)
  have leave_get: "\<not> is_exception x" if "fst (get_monitor_handle_call remote request) = Inl x"
  proof (cases "get_monitor_try remote request")
    case (Pair r calls)
    with that show ?thesis
      by (cases r) (simp_all add: get_monitor_handle_call_def except_clauses_Inl)
  qed
  have leave_edit: "\<not> is_exception x" if "fst (monitor_edit_handle_call remote request) = Inl x"
  proof (cases "monitor_edit_try remote request")
    case (Pair r calls)
    with that show ?thesis
      by (cases r) (simp_all add: monitor_edit_handle_call_def except_clauses_Inl)
  qed
  have escape_get: "get_monitor_except e = Inl e" and escape_edit: "monitor_edit_except e = Inl e"
    if "\<not> is_exception e"
    using that by (simp_all add: except_clauses_Inl)
  have flag: "isError (spec_error_result e)"
    by (simp add: spec_error_result_def)
  show ?thesis
    using get_monitor_raises' [of c remote request e] monitor_edit_raises [of c remote request e]
      try_get [of e] try_edit [of e] leave_get leave_edit escape_get escape_edit flag
    by (simp add: except_clauses_spec)
qed

theorem exception_failure_reported_witness:
  "fst (get_monitor_handle_call not_found_remote
          \<lparr>arguments = Some [(''monitor_id'', PInt 99999999)]\<rparr>)
     = Inr \<lparr>content_text = ''Monitor not found'', isError = True\<rparr>
   \<and> fst (monitor_edit_handle_call not_found_remote
          \<lparr>arguments = Some [(''monitor_id'', PInt 99999999), (''name'', PStr ''New Name'')]\<rparr>)
     = Inr \<lparr>content_text = ''Monitor not found'', isError = True\<rparr>
   \<and> fst (get_monitor_handle_call forbidden_remote
          \<lparr>arguments = Some [(''monitor_id'', PInt 12345)]\<rparr>)
     = Inr \<lparr>content_text = ''Permission denied'', isError = True\<rparr>
   \<and> fst (monitor_edit_handle_call forbidden_remote
          \<lparr>arguments = Some [(''monitor_id'', PInt 12345), (''name'', PStr ''New Name'')]\<rparr>)
     = Inr \<lparr>content_text = ''Permission denied'', isError = True\<rparr>
   \<and> fst (get_monitor_handle_call server_error_remote
          \<lparr>arguments = Some [(''monitor_id'', PInt 12345)]\<rparr>)
     = Inr \<lparr>content_text = ''Error: Internal Server Error'', isError = True\<rparr>
   \<and> fst (monitor_edit_handle_call api_error_remote
          \<lparr>arguments = Some [(''monitor_id'', PInt 12345), (''name'', PStr ''New Name'')]\<rparr>)
     = Inr \<lparr>content_text = ''Error: API error'', isError = True\<rparr>
   \<and> fst (monitor_edit_handle_call cancelled_remote
          \<lparr>arguments = Some [(''monitor_id'', PInt 12345), (''name'', PStr ''New Name'')]\<rparr>)
     = Inl (BaseExceptionOnly [])"
  using
    exception_failure_reported [of "HTTPStatusError 404 ''Not Found''"
      "FetchMonitor (PInt 99999999)" not_found_remote
      "\<lparr>arguments = Some [(''monitor_id'', PInt 99999999)]\<rparr>"]
    exception_failure_reported [of "HTTPStatusError 404 ''Not Found''"
      "UpdateMonitor (PInt 99999999) [(''name'', PStr ''New Name'')]" not_found_remote
      "\<lparr>arguments = Some [(''monitor_id'', PInt 99999999), (''name'', PStr ''New Name'')]\<rparr>"]
    exception_failure_reported [of "HTTPStatusError 403 ''Forbidden''"
      "FetchMonitor (PInt 12345)" forbidden_remote
      "\<lparr>arguments = Some [(''monitor_id'', PInt 12345)]\<rparr>"]
    exception_failure_reported [of "HTTPStatusError 403 ''Forbidden''"
      "UpdateMonitor (PInt 12345) [(''name'', PStr ''New Name'')]" forbidden_remote
      "\<lparr>arguments = Some [(''monitor_id'', PInt 12345), (''name'', PStr ''New Name'')]\<rparr>"]
    exception_failure_reported [of "HTTPStatusError 500 ''Internal Server Error''"
      "FetchMonitor (PInt 12345)" server_error_remote
      "\<lparr>arguments = Some [(''monitor_id'', PInt 12345)]\<rparr>"]
    exception_failure_reported [of "OtherException ''API error''"
      "UpdateMonitor (PInt 12345) [(''name'', PStr ''New Name'')]" api_error_remote
      "\<lparr>arguments = Some [(''monitor_id'', PInt 12345), (''name'', PStr ''New Name'')]\<rparr>"]
    exception_failure_reported [of "BaseExceptionOnly []"
      "UpdateMonitor (PInt 12345) [(''name'', PStr ''New Name'')]" cancelled_remote
      "\<lparr>arguments = Some [(''monitor_id'', PInt 12345), (''name'', PStr ''New Name'')]\<rparr>"]
  by (simp add: get_monitor_handle_call_def get_monitor_try_def monitor_edit_handle_call_def
          monitor_edit_try_def arguments_or_empty_def dict_get_def priority_invalid_def
          build_updates_def not_found_remote_def forbidden_remote_def server_error_remote_def
          api_error_remote_def cancelled_remote_def spec_error_result_def)

text \<open>
  Claim C1 as stated has no exception leave the handler, which then always returns a
  result. When the task is cancelled while \<open>fetch_monitor\<close> is awaited, the
  \<open>CancelledError\<close> passes both \<open>except\<close> clauses and leaves \<open>handle_call\<close>: the
  handler returns no result.
\<close>

theorem cancelled_call_escapes_counterexample:
  "get_monitor_handle_call cancelled_remote \<lparr>arguments = Some [(''monitor_id'', PInt 12345)]\<rparr>
     = (Inl (BaseExceptionOnly []), [FetchMonitor (PInt 12345)])"
  by (simp add: get_monitor_handle_call_def get_monitor_try_def arguments_or_empty_def
        dict_get_def cancelled_remote_def)

text \<open>
  Claim C2, as amended. When the arguments are absent, or lack \<open>monitor_id\<close>, or bind it
  to \<open>None\<close>, both handlers return the failure result with the text
  ``Error: monitor_id is required'' and call the remote client zero times, whatever the
  other arguments are.
\<close>

theorem missing_monitor_id_rejected:
  assumes "arguments request = None
         \<or> (\<exists>a. arguments request = Some a
                \<and> (map_of a ''monitor_id'' = None \<or> map_of a ''monitor_id'' = Some PNone))"
  shows "get_monitor_handle_call remote request
           = (Inr \<lparr>content_text = ''Error: monitor_id is required'', isError = True\<rparr>, [])
       \<and> monitor_edit_handle_call remote request
           = (Inr \<lparr>content_text = ''Error: monitor_id is required'', isError = True\<rparr>, [])"
proof -
  from assms have "dict_get (arguments_or_empty request) ''monitor_id'' PNone = PNone"
    by (auto simp: arguments_or_empty_def dict_get_def)
  then show ?thesis
    by (simp add: get_monitor_handle_call_def get_monitor_try_def
          monitor_edit_handle_call_def monitor_edit_try_def)
qed

theorem missing_monitor_id_rejected_witness:
  "monitor_edit_handle_call sample_remote
      \<lparr>arguments = Some [(''monitor_id'', PNone), (''name'', PStr ''New Name'')]\<rparr>
     = (Inr \<lparr>content_text = ''Error: monitor_id is required'', isError = True\<rparr>, [])"
  using missing_monitor_id_rejected [of
      "\<lparr>arguments = Some [(''monitor_id'', PNone), (''name'', PStr ''New Name'')]\<rparr>" sample_remote]
  by simp

text \<open>
  Claim C2 as stated gives the message as ``monitor_id is required''; the text returned
  for a request without arguments differs from it (it starts with ``Error: '').
\<close>

theorem missing_monitor_id_text_counterexample:
  "fst (get_monitor_handle_call sample_remote \<lparr>arguments = None\<rparr>)
     = Inr \<lparr>content_text = ''Error: monitor_id is required'', isError = True\<rparr>
   \<and> ''Error: monitor_id is required'' \<noteq> ''monitor_id is required''"
  by (simp add: get_monitor_handle_call_def get_monitor_try_def arguments_or_empty_def dict_get_def)

text \<open>
  Claim C3, as amended. For a \<open>monitor_edit\<close> request with a \<open>monitor_id\<close> other than
  \<open>None\<close> whose \<open>priority\<close> is absent, \<open>None\<close> or an integer from 1 to 5, the
  patch holds exactly the supplied fields among \<open>name\<close>, \<open>message\<close>, \<open>tags\<close>,
  \<open>priority\<close> that are not \<open>None\<close>, each once. An empty patch gives the failure
  ``At least one field to update is required'' and no call; a patch that is not empty
  gives exactly one call of \<open>update_monitor\<close> with the request's \<open>monitor_id\<close> and the
  patch. An empty string for \<open>name\<close> and an empty list for \<open>tags\<close> are in the patch,
  so the call is made.
\<close>

theorem patch_of_supplied_fields:
  assumes "arguments request = Some a"
    and "map_of a ''monitor_id'' = Some mid" and "mid \<noteq> PNone"
    and "map_of a ''priority'' = None \<or> map_of a ''priority'' = Some PNone
       \<or> (\<exists>p. map_of a ''priority'' = Some (PInt p) \<and> 1 \<le> p \<and> p \<le> 5)"
  shows "\<exists>updates.
           (\<forall>k v. map_of updates k = Some v \<longleftrightarrow>
                  k \<in> {''name'', ''message'', ''tags'', ''priority''}
                  \<and> map_of a k = Some v \<and> v \<noteq> PNone)
         \<and> distinct (map fst updates)
         \<and> (updates = [] \<longrightarrow>
              monitor_edit_handle_call remote request
                = (Inr \<lparr>content_text = ''At least one field to update is required'',
                        isError = True\<rparr>, []))
         \<and> (updates \<noteq> [] \<longrightarrow>
              snd (monitor_edit_handle_call remote request) = [UpdateMonitor mid updates])
         \<and> (map_of a ''name'' = Some (PStr []) \<longrightarrow>
              updates \<noteq> [] \<and> map_of updates ''name'' = Some (PStr []))
         \<and> (map_of a ''tags'' = Some (PList []) \<longrightarrow>
              updates \<noteq> [] \<and> map_of updates ''tags'' = Some (PList []))"
proof -
  define updates where "updates =
    build_updates (dict_get a ''name'' PNone) (dict_get a ''message'' PNone)
      (dict_get a ''tags'' PNone) (dict_get a ''priority'' PNone)"
  have args: "arguments_or_empty request = a"
    using assms(1) by (simp add: arguments_or_empty_def)
  have mid: "dict_get (arguments_or_empty request) ''monitor_id'' PNone = mid"
    using assms(2) by (simp add: args dict_get_def)
  have prio: "priority_invalid (dict_get a ''priority'' PNone) = Inr False"
    using assms(4) by (auto simp: dict_get_def priority_invalid_simps)
  have content: "map_of updates k = Some v \<longleftrightarrow>
      k \<in> {''name'', ''message'', ''tags'', ''priority''} \<and> map_of a k = Some v \<and> v \<noteq> PNone"
    for k v
    unfolding updates_def map_of_build_updates_iff
    using dict_get_eq_iff [of v a] by auto
  have run: "monitor_edit_handle_call remote request =
      (if updates = []
       then (Inr \<lparr>content_text = ''At least one field to update is required'',
                  isError = True\<rparr>, [])
       else (case remote (UpdateMonitor mid updates) of
               Raises e \<Rightarrow> monitor_edit_except e
             | Returns updated \<Rightarrow>
                 Inr \<lparr>content_text = ''Monitor '' @ py_str mid @ '' updated successfully'',
                      isError = False\<rparr>,
             [UpdateMonitor mid updates]))"
    using monitor_edit_cases [OF mid assms(3), of remote] prio
    by (simp add: args updates_def Let_def)
  have name: "updates \<noteq> [] \<and> map_of updates ''name'' = Some (PStr [])"
    if "map_of a ''name'' = Some (PStr [])"
  proof -
    from that have "map_of updates ''name'' = Some (PStr [])"
      by (simp add: content)
    then show ?thesis by auto
  qed
  have tags: "updates \<noteq> [] \<and> map_of updates ''tags'' = Some (PList [])"
    if "map_of a ''tags'' = Some (PList [])"
  proof -
    from that have "map_of updates ''tags'' = Some (PList [])"
      by (simp add: content)
    then show ?thesis by auto
  qed
  have dist: "distinct (map fst updates)"
    by (simp add: updates_def distinct_build_updates)
  have empty: "monitor_edit_handle_call remote request
         = (Inr \<lparr>content_text = ''At least one field to update is required'',
                 isError = True\<rparr>, [])"
    if "updates = []"
    using that by (simp add: run)
  have nonempty: "snd (monitor_edit_handle_call remote request) = [UpdateMonitor mid updates]"
    if "updates \<noteq> []"
    using that by (simp add: run)
  from content dist empty nonempty name tags show ?thesis
    by blast
qed

theorem patch_of_supplied_fields_witness:
  "snd (monitor_edit_handle_call sample_remote
          \<lparr>arguments = Some [(''monitor_id'', PInt 12345), (''name'', PStr [])]\<rparr>)
     = [UpdateMonitor (PInt 12345) [(''name'', PStr [])]]"
proof -
  have run: "snd (monitor_edit_handle_call sample_remote
          \<lparr>arguments = Some [(''monitor_id'', PInt 12345), (''name'', PStr [])]\<rparr>)
     = [UpdateMonitor (PInt 12345) [(''name'', PStr [])]]"
    by (simp add: monitor_edit_handle_call_def monitor_edit_try_def arguments_or_empty_def
          dict_get_def priority_invalid_def build_updates_def sample_remote_def)
  from patch_of_supplied_fields [of
      "\<lparr>arguments = Some [(''monitor_id'', PInt 12345), (''name'', PStr [])]\<rparr>"
      "[(''monitor_id'', PInt 12345), (''name'', PStr [])]" "PInt 12345" sample_remote]
  have "\<exists>updates. updates \<noteq> [] \<and> map_of updates ''name'' = Some (PStr [])
      \<and> snd (monitor_edit_handle_call sample_remote
          \<lparr>arguments = Some [(''monitor_id'', PInt 12345), (''name'', PStr [])]\<rparr>)
         = [UpdateMonitor (PInt 12345) updates]"
    by auto
  with run show ?thesis by simp
qed

text \<open>
  Claim C3 as stated covers every request with a \<open>monitor_id\<close>; a request with an empty
  \<open>name\<close> and the priority 0 is rejected by the priority check and makes no call of
  \<open>update_monitor\<close>.
\<close>

theorem empty_name_invalid_priority_counterexample:
  "monitor_edit_handle_call sample_remote
      \<lparr>arguments = Some [(''monitor_id'', PInt 12345), (''name'', PStr []), (''priority'', PInt 0)]\<rparr>
     = (Inr \<lparr>content_text = ''Invalid priority: must be 1-5'', isError = True\<rparr>, [])"
  by (simp add: monitor_edit_handle_call_def monitor_edit_try_def arguments_or_empty_def
        dict_get_def priority_invalid_def)

text \<open>
  Claim C4. For a \<open>monitor_edit\<close> request with a \<open>monitor_id\<close> other than \<open>None\<close>
  and an integer \<open>priority\<close>: a priority below 1 or above 5 gives the failure
  ``Invalid priority: must be 1-5'' and no call, whatever the other fields are (so also
  when the priority is the only field supplied, where the empty-patch message is not
  given); a priority from 1 to 5 passes, the handler calls \<open>update_monitor\<close> with a patch
  that holds the priority, and its text is not the priority message.
\<close>

theorem priority_range_checked_first:
  assumes "arguments request = Some a"
    and "map_of a ''monitor_id'' = Some mid" and "mid \<noteq> PNone"
    and "map_of a ''priority'' = Some (PInt p)"
  shows "(p < 1 \<or> 5 < p \<longrightarrow>
            monitor_edit_handle_call remote request
              = (Inr \<lparr>content_text = ''Invalid priority: must be 1-5'', isError = True\<rparr>, []))
       \<and> (1 \<le> p \<and> p \<le> 5 \<longrightarrow>
            snd (monitor_edit_handle_call remote request)
              = [UpdateMonitor mid
                   (build_updates (dict_get a ''name'' PNone) (dict_get a ''message'' PNone)
                      (dict_get a ''tags'' PNone) (PInt p))]
          \<and> map_of (build_updates (dict_get a ''name'' PNone) (dict_get a ''message'' PNone)
                      (dict_get a ''tags'' PNone) (PInt p)) ''priority'' = Some (PInt p)
          \<and> (\<forall>result. fst (monitor_edit_handle_call remote request) = Inr result
                \<longrightarrow> content_text result \<noteq> ''Invalid priority: must be 1-5''))"
proof -
  have args: "arguments_or_empty request = a"
    using assms(1) by (simp add: arguments_or_empty_def)
  have mid: "dict_get (arguments_or_empty request) ''monitor_id'' PNone = mid"
    using assms(2) by (simp add: args dict_get_def)
  have prio: "dict_get a ''priority'' PNone = PInt p"
    using assms(4) by (simp add: dict_get_def)
  have nonempty: "build_updates n m t (PInt p) \<noteq> []" for n m t
    by (simp add: build_updates_empty)
  have except: "content_text result \<noteq> ''Invalid priority: must be 1-5''"
    if "monitor_edit_except e = Inr result" for e result
    using that by (cases e) (auto split: if_splits)
  show ?thesis
    using monitor_edit_cases [OF mid assms(3), of remote] nonempty except
    by (auto simp: args prio Let_def priority_invalid_simps map_of_build_updates
          split: outcome.splits)
qed

theorem priority_range_checked_first_witness:
  "monitor_edit_handle_call sample_remote
      \<lparr>arguments = Some [(''monitor_id'', PInt 12345), (''priority'', PInt 6)]\<rparr>
     = (Inr \<lparr>content_text = ''Invalid priority: must be 1-5'', isError = True\<rparr>, [])
   \<and> snd (monitor_edit_handle_call sample_remote
      \<lparr>arguments = Some [(''monitor_id'', PInt 12345), (''priority'', PInt 5)]\<rparr>)
     = [UpdateMonitor (PInt 12345) [(''priority'', PInt 5)]]"
  using priority_range_checked_first [of
      "\<lparr>arguments = Some [(''monitor_id'', PInt 12345), (''priority'', PInt 6)]\<rparr>"
      "[(''monitor_id'', PInt 12345), (''priority'', PInt 6)]" "PInt 12345" 6 sample_remote]
    priority_range_checked_first [of
      "\<lparr>arguments = Some [(''monitor_id'', PInt 12345), (''priority'', PInt 5)]\<rparr>"
      "[(''monitor_id'', PInt 12345), (''priority'', PInt 5)]" "PInt 12345" 5 sample_remote]
  by (simp add: dict_get_def build_updates_def)



text \<open>
  Claim C9. When the \<open>format\<close> argument of a \<open>get_monitor\<close> request is any value other
  than the string \<open>"json"\<close>, the handler does exactly what it does for the same request
  without \<open>format\<close>, and for the same request with \<open>format\<close> set to \<open>"table"\<close>: the
  format value alone never makes the handler reject the request.
\<close>

theorem format_other_than_json_is_table:
  assumes "dict_get a ''format'' (PStr ''table'') \<noteq> PStr ''json''"
  shows "get_monitor_handle_call remote \<lparr>arguments = Some a\<rparr>
           = get_monitor_handle_call remote
               \<lparr>arguments = Some (filter (\<lambda>kv. fst kv \<noteq> ''format'') a)\<rparr>
       \<and> get_monitor_handle_call remote \<lparr>arguments = Some a\<rparr>
           = get_monitor_handle_call remote
               \<lparr>arguments = Some ((''format'', PStr ''table'') # a)\<rparr>"
  using assms
  by (simp add: get_monitor_handle_call_def get_monitor_try_def arguments_or_empty_def
        dict_get_filter_key dict_get_Cons Let_def split: outcome.splits)

theorem format_other_than_json_is_table_witness:
  "get_monitor_handle_call sample_remote
      \<lparr>arguments = Some [(''monitor_id'', PInt 12345), (''format'', PStr ''yaml'')]\<rparr>
     = get_monitor_handle_call sample_remote
      \<lparr>arguments = Some [(''monitor_id'', PInt 12345)]\<rparr>"
  using format_other_than_json_is_table [of
      "[(''monitor_id'', PInt 12345), (''format'', PStr ''yaml'')]" sample_remote]
  by (simp add: dict_get_def)

text \<open>
  Claim C5. A successful \<open>get_monitor\<close> call in table format returns the block
  ``Monitor Details'' with the lines ID, Name, Type, State, Priority, Tags, Query and
  Message in this order. An attribute absent from the record is shown by its default:
  ``Unnamed'', ``unknown'', ``unknown'', ``N/A'', ``None'' (tags), ``N/A'' and ``None''
  (message). When the record has a list of tags, the Tags line shows the first five joined
  by a comma and a space, followed by `` (+n more)'' when there are n more than five; it
  reads ``None'' when that text is empty.
\<close>

theorem table_layout_and_defaults:
  assumes "get_monitor_handle_call remote request = (Inr result, calls)"
    and "\<not> isError result"
    and "dict_get (arguments_or_empty request) ''format'' (PStr ''table'') \<noteq> PStr ''json''"
  shows "\<exists>attrs tags_line message_line.
           remote (FetchMonitor (dict_get (arguments_or_empty request) ''monitor_id'' PNone))
             = Returns (PDict attrs)
         \<and> content_text result =
             spec_table (py_str (dict_get (arguments_or_empty request) ''monitor_id'' PNone))
               (spec_attribute attrs ''name'' ''Unnamed'')
               (spec_attribute attrs ''type'' ''unknown'')
               (spec_attribute attrs ''overall_state'' ''unknown'')
               (spec_attribute attrs ''priority'' ''N/A'')
               tags_line
               (spec_attribute attrs ''query'' ''N/A'')
               message_line
         \<and> (map_of attrs ''tags'' = None \<longrightarrow> tags_line = ''None'')
         \<and> (\<forall>xs. map_of attrs ''tags'' = Some (PList xs) \<longrightarrow>
               (\<exists>first. take 5 xs = map PStr first
                  \<and> tags_line = spec_or_none (spec_tags first (length xs))))
         \<and> (map_of attrs ''message'' = None \<longrightarrow> message_line = ''None'')"
proof -
  from get_monitor_table [OF assms] obtain attrs tags_str message_str where
    r: "remote (FetchMonitor (dict_get (arguments_or_empty request) ''monitor_id'' PNone))
          = Returns (PDict attrs)"
    and t: "tags_summary (dict_get attrs ''tags'' (PList [])) = Inr tags_str"
    and m: "message_truncated (dict_get attrs ''message'' (PStr [])) = Inr message_str"
    and c: "content_text result =
             spec_table (py_str (dict_get (arguments_or_empty request) ''monitor_id'' PNone))
               (spec_attribute attrs ''name'' ''Unnamed'')
               (spec_attribute attrs ''type'' ''unknown'')
               (spec_attribute attrs ''overall_state'' ''unknown'')
               (spec_attribute attrs ''priority'' ''N/A'')
               (spec_or_none tags_str)
               (spec_attribute attrs ''query'' ''N/A'')
               (spec_or_none message_str)"
    by blast
  have t0: "spec_or_none tags_str = ''None''" if "map_of attrs ''tags'' = None"
    using t that by (simp add: dict_get_def tags_summary_absent spec_or_none_def)
  have t1: "\<exists>first. take 5 xs = map PStr first
              \<and> spec_or_none tags_str = spec_or_none (spec_tags first (length xs))"
    if "map_of attrs ''tags'' = Some (PList xs)" for xs
    using t that tags_summary_list [of xs tags_str] by (auto simp: dict_get_def)
  have m0: "spec_or_none message_str = ''None''" if "map_of attrs ''message'' = None"
    using m that by (simp add: dict_get_def message_truncated_str spec_or_none_def)
  show ?thesis
    apply (rule exI [of _ attrs])
    apply (rule exI [of _ "spec_or_none tags_str"])
    apply (rule exI [of _ "spec_or_none message_str"])
    apply (intro conjI allI impI)
        apply (rule r)
       apply (rule c)
      apply (erule t0)
     apply (erule t1)
    apply (erule m0)
    done
qed

theorem table_layout_and_defaults_witness:
  "fst (get_monitor_handle_call sample_remote
      \<lparr>arguments = Some [(''monitor_id'', PInt 12345), (''format'', PStr ''table'')]\<rparr>)
     = Inr \<lparr>content_text = spec_table ''12345'' ''Unnamed'' ''unknown'' ''unknown'' ''N/A''
              ''None'' ''N/A'' ''None'', isError = False\<rparr>
   \<and> fst (get_monitor_handle_call seven_tags_remote
      \<lparr>arguments = Some [(''monitor_id'', PInt 12345), (''format'', PStr ''table'')]\<rparr>)
     = Inr \<lparr>content_text = spec_table ''12345'' ''Test Monitor'' ''unknown'' ''unknown'' ''None''
              ''t1, t2, t3, t4, t5 (+2 more)'' ''N/A'' (replicate 100 CHR ''A'' @ ''...''),
            isError = False\<rparr>"
proof -
  have run: "get_monitor_handle_call sample_remote
      \<lparr>arguments = Some [(''monitor_id'', PInt 12345), (''format'', PStr ''table'')]\<rparr>
     = (Inr \<lparr>content_text = spec_table ''12345'' ''Unnamed'' ''unknown'' ''unknown'' ''N/A'' ''None''
           ''N/A'' ''None'', isError = False\<rparr>, [FetchMonitor (PInt 12345)])"
    by (simp add: run_get_monitor sample_remote_def)
  have run7: "get_monitor_handle_call seven_tags_remote
      \<lparr>arguments = Some [(''monitor_id'', PInt 12345), (''format'', PStr ''table'')]\<rparr>
     = (Inr \<lparr>content_text = spec_table ''12345'' ''Test Monitor'' ''unknown'' ''unknown'' ''None''
           ''t1, t2, t3, t4, t5 (+2 more)'' ''N/A'' (replicate 100 CHR ''A'' @ ''...''),
         isError = False\<rparr>, [FetchMonitor (PInt 12345)])"
    by (simp add: run_get_monitor seven_tags_remote_def)
  from table_layout_and_defaults [OF run] run run7 show ?thesis
    by simp
qed

text \<open>
  Claim C6. In table format, for a record whose message is a string, the Message line
  shows the message with every newline replaced by a space, cut to its first 100
  characters and followed by ``...'' when the message is longer than 100 characters
  (``None'' when the message is empty); the line holds no newline character.
\<close>

theorem message_line_truncated:
  assumes "get_monitor_handle_call remote request = (Inr result, calls)"
    and "\<not> isError result"
    and "dict_get (arguments_or_empty request) ''format'' (PStr ''table'') \<noteq> PStr ''json''"
    and "remote (FetchMonitor (dict_get (arguments_or_empty request) ''monitor_id'' PNone))
           = Returns (PDict attrs)"
    and "map_of attrs ''message'' = Some (PStr m)"
  shows "(\<exists>tags_line.
            content_text result =
              spec_table (py_str (dict_get (arguments_or_empty request) ''monitor_id'' PNone))
                (spec_attribute attrs ''name'' ''Unnamed'')
                (spec_attribute attrs ''type'' ''unknown'')
                (spec_attribute attrs ''overall_state'' ''unknown'')
                (spec_attribute attrs ''priority'' ''N/A'')
                tags_line
                (spec_attribute attrs ''query'' ''N/A'')
                (spec_message m))
       \<and> CHR 0x0A \<notin> set (spec_message m)
       \<and> (length m > 100 \<longrightarrow>
            spec_message m
              = take 100 (map (\<lambda>c. if c = CHR 0x0A then CHR '' '' else c) m) @ ''...'')
       \<and> (length m \<le> 100 \<and> m \<noteq> [] \<longrightarrow>
            spec_message m = map (\<lambda>c. if c = CHR 0x0A then CHR '' '' else c) m)"
proof -
  from get_monitor_table [OF assms(1,2,3)] assms(4) obtain tags_str message_str where
    m: "message_truncated (dict_get attrs ''message'' (PStr [])) = Inr message_str"
    and c: "content_text result =
             spec_table (py_str (dict_get (arguments_or_empty request) ''monitor_id'' PNone))
               (spec_attribute attrs ''name'' ''Unnamed'')
               (spec_attribute attrs ''type'' ''unknown'')
               (spec_attribute attrs ''overall_state'' ''unknown'')
               (spec_attribute attrs ''priority'' ''N/A'')
               (spec_or_none tags_str)
               (spec_attribute attrs ''query'' ''N/A'')
               (spec_or_none message_str)"
    by auto
  from m assms(5) have "spec_or_none message_str = spec_message m"
    by (auto simp: dict_get_def message_truncated_str spec_message_code)
  with c have shown: "\<exists>tags_line.
            content_text result =
              spec_table (py_str (dict_get (arguments_or_empty request) ''monitor_id'' PNone))
                (spec_attribute attrs ''name'' ''Unnamed'')
                (spec_attribute attrs ''type'' ''unknown'')
                (spec_attribute attrs ''overall_state'' ''unknown'')
                (spec_attribute attrs ''priority'' ''N/A'')
                tags_line
                (spec_attribute attrs ''query'' ''N/A'')
                (spec_message m)"
    by auto
  have no_newline: "CHR 0x0A \<notin> set (spec_message m)"
    by (auto simp: spec_message_def spec_or_none_def Let_def dest: in_set_takeD)
  have long: "spec_message m
      = take 100 (map (\<lambda>c. if c = CHR 0x0A then CHR '' '' else c) m) @ ''...''"
    if "length m > 100"
    using that by (simp add: spec_message_def spec_or_none_def)
  have short: "spec_message m = map (\<lambda>c. if c = CHR 0x0A then CHR '' '' else c) m"
    if "length m \<le> 100 \<and> m \<noteq> []"
    using that by (simp add: spec_message_def spec_or_none_def)
  from shown no_newline long short show ?thesis
    by blast
qed

theorem message_line_truncated_witness:
  "fst (get_monitor_handle_call newline_message_remote
      \<lparr>arguments = Some [(''monitor_id'', PInt 99999)]\<rparr>)
     = Inr \<lparr>content_text = spec_table ''99999'' ''Memory Usage Alert'' ''unknown'' ''unknown''
              ''N/A'' ''None'' ''N/A'' ''Memory usage critical! @slack-alerts'',
            isError = False\<rparr>
   \<and> spec_message (replicate 200 CHR ''A'') = replicate 100 CHR ''A'' @ ''...''"
proof -
  have run: "get_monitor_handle_call newline_message_remote
      \<lparr>arguments = Some [(''monitor_id'', PInt 99999)]\<rparr>
     = (Inr \<lparr>content_text = spec_table ''99999'' ''Memory Usage Alert'' ''unknown'' ''unknown''
           ''N/A'' ''None'' ''N/A'' ''Memory usage critical! @slack-alerts'',
         isError = False\<rparr>, [FetchMonitor (PInt 99999)])"
    by (simp add: run_get_monitor newline_message_remote_def)
  have long: "spec_message (replicate 200 CHR ''A'') = replicate 100 CHR ''A'' @ ''...''"
    by (simp add: spec_message_def spec_or_none_def)
  from message_line_truncated [OF run, of _ "''Memory usage critical!\<newline>@slack-alerts''"]
    run long
  show ?thesis
    by simp
qed

text \<open>
  Claim C10. In table format, when the record holds the key \<open>priority\<close> with the value
  \<open>None\<close>, the Priority line reads ``Priority: None'', the printed null, and not the
  default ``N/A'' kept for a record without the key.
\<close>

theorem null_priority_shown_as_None:
  assumes "get_monitor_handle_call remote request = (Inr result, calls)"
    and "\<not> isError result"
    and "dict_get (arguments_or_empty request) ''format'' (PStr ''table'') \<noteq> PStr ''json''"
    and "remote (FetchMonitor (dict_get (arguments_or_empty request) ''monitor_id'' PNone))
           = Returns (PDict attrs)"
    and "map_of attrs ''priority'' = Some PNone"
  shows "\<exists>tags_line message_line.
            content_text result =
              spec_table (py_str (dict_get (arguments_or_empty request) ''monitor_id'' PNone))
                (spec_attribute attrs ''name'' ''Unnamed'')
                (spec_attribute attrs ''type'' ''unknown'')
                (spec_attribute attrs ''overall_state'' ''unknown'')
                ''None''
                tags_line
                (spec_attribute attrs ''query'' ''N/A'')
                message_line"
proof -
  from assms(5) have "spec_attribute attrs ''priority'' ''N/A'' = ''None''"
    by (simp add: spec_attribute_def)
  with get_monitor_table [OF assms(1,2,3)] assms(4) show ?thesis
    by auto
qed

theorem null_priority_shown_as_None_witness:
  "fst (get_monitor_handle_call seven_tags_remote
      \<lparr>arguments = Some [(''monitor_id'', PInt 12345)]\<rparr>)
     = Inr \<lparr>content_text =
         ''Monitor Details\<newline>===============\<newline>\<newline>ID:       12345\<newline>''
         @ ''Name:     Test Monitor\<newline>Type:     unknown\<newline>State:    unknown\<newline>''
         @ ''Priority: None\<newline>Tags:     t1, t2, t3, t4, t5 (+2 more)\<newline>''
         @ ''Query:    N/A\<newline>Message:  '' @ replicate 100 CHR ''A'' @ ''...\<newline>'',
         isError = False\<rparr>"
proof -
  have run: "get_monitor_handle_call seven_tags_remote
      \<lparr>arguments = Some [(''monitor_id'', PInt 12345)]\<rparr>
     = (Inr \<lparr>content_text = spec_table ''12345'' ''Test Monitor'' ''unknown'' ''unknown'' ''None''
           ''t1, t2, t3, t4, t5 (+2 more)'' ''N/A'' (replicate 100 CHR ''A'' @ ''...''),
         isError = False\<rparr>, [FetchMonitor (PInt 12345)])"
    by (simp add: run_get_monitor seven_tags_remote_def)
  from null_priority_shown_as_None [OF run] run show ?thesis
    by (simp add: spec_table_def)
qed

end
